theory Spec2Isabelle
  imports Complex_Main "HOL-Library.List_Lexorder"
begin

section \<open>Text, documents and patient records\<close>

text \<open>
  A Python \<open>str\<close> is a sequence of Unicode code points; it is modelled as a list of
  natural numbers, so that indexing, stripping and the built-in order (lexicographic by
  code point, a proper prefix first) are the ones of Python.  ASCII literals are written
  with \<open>pys\<close>, Russian literals as explicit code points.
\<close>

type_synonym pystr = "nat list"

definition pys :: "string \<Rightarrow> pystr" where
  "pys s = map of_char s"

text \<open>The two gender values \<open>select_gender\<close> returns, and the confirmation word.\<close>

definition male :: pystr where
  "male = [1052, 1091, 1078, 1089, 1082, 1086, 1081]"

definition female :: pystr where
  "female = [1046, 1077, 1085, 1089, 1082, 1080, 1081]"


text \<open>
  \<open>str.isspace\<close> for one code point, and \<open>str.strip()\<close> without arguments, which
  removes the white space at both ends.
\<close>

definition isspace :: "nat \<Rightarrow> bool" where
  "isspace c \<longleftrightarrow>
     (9 \<le> c \<and> c \<le> 13) \<or> (28 \<le> c \<and> c \<le> 32) \<or> c = 133 \<or> c = 160 \<or> c = 5760 \<or>
     (8192 \<le> c \<and> c \<le> 8202) \<or> c = 8232 \<or> c = 8233 \<or> c = 8239 \<or> c = 8287 \<or>
     c = 12288"

definition strip :: "pystr \<Rightarrow> pystr" where
  "strip s = rev (dropWhile isspace (rev (dropWhile isspace s)))"

text \<open>
  \<open>str.lower()\<close> is the case mapping of the Unicode database that the interpreter
  was built with; it depends on the context of a letter and can change the length of a
  string.  It is not defined here: the methods that call it take it as their argument
  \<open>lower\<close>, and what is proved of them holds for every function from strings to strings.
\<close>


text \<open>The exceptions the program can meet.\<close>

datatype exn = EOFError | ValueError | TypeError | IndexError | OSError




definition int_max_str_digits :: nat where
  "int_max_str_digits = 4300"




text \<open>
  What \<open>json.load\<close> returns: \<open>None\<close>, a truth value, an integer, a string, a list or a
  dict with string keys (given by its items).  Floating-point numbers are left out.
\<close>

datatype json =
    JNull
  | JBool bool
  | JInt int
  | JStr pystr
  | JArr "json list"
  | JObj "(pystr \<times> json) list"

text \<open>
  The dataclass \<open>Patient\<close>, with the types of its annotations.  The field \<open>id\<close> is
  called \<open>pid\<close> here, \<open>id\<close> being the identity function of HOL.
\<close>

record patient =
  pid :: int
  last_name :: pystr
  first_name :: pystr
  middle_name :: "pystr option"
  birth_date :: pystr
  gender :: pystr
  address :: pystr
  phone :: pystr
  email :: "pystr option"
  insurance_number :: pystr
  registration_date :: pystr
  medical_history :: pystr
  diagnosis :: pystr
  attending_doctor :: pystr

definition field_names :: "pystr list" where
  "field_names =
     [pys ''id'', pys ''last_name'', pys ''first_name'', pys ''middle_name'',
      pys ''birth_date'', pys ''gender'', pys ''address'', pys ''phone'', pys ''email'',
      pys ''insurance_number'', pys ''registration_date'', pys ''medical_history'',
      pys ''diagnosis'', pys ''attending_doctor'']"

definition json_of_opt :: "pystr option \<Rightarrow> json" where
  "json_of_opt v = (case v of None \<Rightarrow> JNull | Some s \<Rightarrow> JStr s)"

text \<open>\<open>dataclasses.asdict\<close>: the dict of the fields, in the order of their declaration.\<close>

definition asdict :: "patient \<Rightarrow> json" where
  "asdict p =
     JObj [(pys ''id'', JInt (pid p)),
           (pys ''last_name'', JStr (last_name p)),
           (pys ''first_name'', JStr (first_name p)),
           (pys ''middle_name'', json_of_opt (middle_name p)),
           (pys ''birth_date'', JStr (birth_date p)),
           (pys ''gender'', JStr (gender p)),
           (pys ''address'', JStr (address p)),
           (pys ''phone'', JStr (phone p)),
           (pys ''email'', json_of_opt (email p)),
           (pys ''insurance_number'', JStr (insurance_number p)),
           (pys ''registration_date'', JStr (registration_date p)),
           (pys ''medical_history'', JStr (medical_history p)),
           (pys ''diagnosis'', JStr (diagnosis p)),
           (pys ''attending_doctor'', JStr (attending_doctor p))]"

text \<open>
  \<open>Patient(**d)\<close>.  The generated \<open>__init__\<close> raises \<open>TypeError\<close> for a value that is
  not a mapping, for a keyword that is not a field and for a field that is missing.  It
  does not check the values against the annotations: a dict with the fourteen keys builds
  an object whatever its values are.  When the values fit the annotations the object is a
  \<open>patient\<close>; when they do not, the outcome is \<open>IllTyped\<close>, an object that this typed
  model does not describe.
\<close>

datatype construction = Object patient | Raised exn | IllTyped

definition as_int :: "json option \<Rightarrow> int option" where
  "as_int v = (case v of Some (JInt n) \<Rightarrow> Some n | _ \<Rightarrow> None)"

definition as_str :: "json option \<Rightarrow> pystr option" where
  "as_str v = (case v of Some (JStr s) \<Rightarrow> Some s | _ \<Rightarrow> None)"

definition as_opt_str :: "json option \<Rightarrow> pystr option option" where
  "as_opt_str v =
     (case v of Some JNull \<Rightarrow> Some None | Some (JStr s) \<Rightarrow> Some (Some s) | _ \<Rightarrow> None)"

definition typed_fields :: "(pystr \<times> json) list \<Rightarrow> patient option" where
  "typed_fields kvs =
     (let d = map_of kvs in
      Option.bind (as_int (d (pys ''id''))) (\<lambda>v1.
      Option.bind (as_str (d (pys ''last_name''))) (\<lambda>v2.
      Option.bind (as_str (d (pys ''first_name''))) (\<lambda>v3.
      Option.bind (as_opt_str (d (pys ''middle_name''))) (\<lambda>v4.
      Option.bind (as_str (d (pys ''birth_date''))) (\<lambda>v5.
      Option.bind (as_str (d (pys ''gender''))) (\<lambda>v6.
      Option.bind (as_str (d (pys ''address''))) (\<lambda>v7.
      Option.bind (as_str (d (pys ''phone''))) (\<lambda>v8.
      Option.bind (as_opt_str (d (pys ''email''))) (\<lambda>v9.
      Option.bind (as_str (d (pys ''insurance_number''))) (\<lambda>v10.
      Option.bind (as_str (d (pys ''registration_date''))) (\<lambda>v11.
      Option.bind (as_str (d (pys ''medical_history''))) (\<lambda>v12.
      Option.bind (as_str (d (pys ''diagnosis''))) (\<lambda>v13.
      Option.bind (as_str (d (pys ''attending_doctor''))) (\<lambda>v14.
      Some \<lparr>pid = v1, last_name = v2, first_name = v3, middle_name = v4, birth_date = v5,
            gender = v6, address = v7, phone = v8, email = v9, insurance_number = v10,
            registration_date = v11, medical_history = v12, diagnosis = v13,
            attending_doctor = v14\<rparr>)))))))))))))))"

definition Patient_kwargs :: "json \<Rightarrow> construction" where
  "Patient_kwargs x =
     (case x of
        JObj kvs \<Rightarrow>
          if set (map fst kvs) = set field_names then
            (case typed_fields kvs of None \<Rightarrow> IllTyped | Some p \<Rightarrow> Object p)
          else Raised TypeError
      | _ \<Rightarrow> Raised TypeError)"

section \<open>The system: the registry object, the console and the disk\<close>

text \<open>
  What \<open>print\<close> writes, one constructor for each \<open>print\<close> statement (or block of
  \<open>print\<close> statements that always run together) of the program, holding the values that
  the text is formatted from.  The prompts of \<open>input\<close> are not recorded.  A percentage
  is held as the number of tenths that the format \<open>.1f\<close> shows: 667 for \<open>66.7\<close>.
  The console is taken to show every string, so that \<open>print\<close> and the prompt of
  \<open>input\<close> do not raise.
\<close>

datatype msg =
    MsgLoaded nat
  | MsgLoadError
  | MsgSaved nat
  | MsgSaveError
  | MsgGenderMenu
  | MsgBadChoice
  | MsgFindMenu
  | MsgIdMustBeNumber
  | MsgBadSearchChoice
  | MsgFound nat
  | MsgNoneFound
  | MsgInfo patient
  | MsgEditHeader
  | MsgNotFound
  | MsgEditMenu
  | MsgUpdated
  | MsgEditError
  | MsgDeleteHeader
  | MsgDeleted
  | MsgDeleteCancelled
  | MsgDeleteError
  | MsgAllHeader nat
  | MsgNoPatients
  | MsgTableHeader
  | MsgRow int pystr pystr pystr pystr
  | MsgStatsHeader
  | MsgNoData
  | MsgTotal nat
  | MsgMen nat int
  | MsgWomen nat int
  | MsgDoctorsHeader
  | MsgDoctor pystr nat int

text \<open>
  A file of the disk is the document that \<open>json.load\<close> reads from it, or \<open>Corrupt\<close> when
  opening, decoding or parsing it raises.  The text that \<open>json.dump\<close> writes is not
  modelled: a dump that succeeds leaves the document it was given.  The disk can make a
  write fail in two ways: \<open>open\<close> raises and the file stays as it was, or the dump
  raises after the file has been opened and truncated, which leaves a file that cannot be
  parsed.
\<close>

datatype stored = Corrupt | Doc json

datatype fault = OpenFails | WriteFails

text \<open>
  The state: the two attributes of the \<open>ClinicManagementSystem\<close> object, the lines that
  \<open>input\<close> will still read before the end of the input, what has been printed, and the
  disk with the way its writes fail, if they do.
\<close>

record sys =
  filename :: pystr
  patients :: "patient list"
  stdin :: "pystr list"
  stdout :: "msg list"
  disk :: "pystr \<Rightarrow> stored option"
  disk_fault :: "fault option"

text \<open>
  A statement runs on a state and ends with a value or with an exception; what it did to
  the state before raising stays done.
\<close>

type_synonym 'a prog = "sys \<Rightarrow> (exn + 'a) \<times> sys"

definition ret :: "'a \<Rightarrow> 'a prog" where
  "ret x = (\<lambda>s. (Inr x, s))"

definition raise :: "exn \<Rightarrow> 'a prog" where
  "raise e = (\<lambda>s. (Inl e, s))"

definition bnd :: "'a prog \<Rightarrow> ('a \<Rightarrow> 'b prog) \<Rightarrow> 'b prog" where
  "bnd m f = (\<lambda>s. case m s of (Inl e, s') \<Rightarrow> (Inl e, s') | (Inr x, s') \<Rightarrow> f x s')"

definition catch :: "'a prog \<Rightarrow> (exn \<Rightarrow> 'a prog) \<Rightarrow> 'a prog" where
  "catch m h = (\<lambda>s. case m s of (Inl e, s') \<Rightarrow> h e s' | (Inr x, s') \<Rightarrow> (Inr x, s'))"

definition modify :: "(sys \<Rightarrow> sys) \<Rightarrow> unit prog" where
  "modify f = (\<lambda>s. (Inr (), f s))"

definition py_print :: "msg \<Rightarrow> unit prog" where
  "py_print m = modify (\<lambda>s. s\<lparr>stdout := stdout s @ [m]\<rparr>)"

text \<open>\<open>input()\<close>: the next line, or \<open>EOFError\<close> at the end of the input.\<close>

definition py_input :: "pystr prog" where
  "py_input = (\<lambda>s. case stdin s of
                      [] \<Rightarrow> (Inl EOFError, s)
                    | l # ls \<Rightarrow> (Inr l, s\<lparr>stdin := ls\<rparr>))"

fun for_each :: "('a \<Rightarrow> unit prog) \<Rightarrow> 'a list \<Rightarrow> unit prog" where
  "for_each f [] = ret ()"
| "for_each f (x # xs) = bnd (f x) (\<lambda>_. for_each f xs)"

section \<open>Loading and saving\<close>

text \<open>
  What \<open>for patient in data\<close> runs over: the elements of a list, the keys of a dict,
  the characters of a string; the other values are not iterable.
\<close>

definition py_iter :: "json \<Rightarrow> exn + json list" where
  "py_iter data =
     (case data of
        JArr xs \<Rightarrow> Inr xs
      | JObj kvs \<Rightarrow> Inr (map (\<lambda>kv. JStr (fst kv)) kvs)
      | JStr cs \<Rightarrow> Inr (map (\<lambda>c. JStr [c]) cs)
      | _ \<Rightarrow> Inl TypeError)"

text \<open>
  The list comprehension \<open>[Patient(**patient) for patient in data]\<close>: the first element
  that raises ends it.  When no element raises and one of the objects is ill-typed, so is
  the list.
\<close>

fun build_all :: "json list \<Rightarrow> exn + patient list option" where
  "build_all [] = Inr (Some [])"
| "build_all (x # xs) =
     (case Patient_kwargs x of
        Raised e \<Rightarrow> Inl e
      | IllTyped \<Rightarrow> (case build_all xs of Inl e \<Rightarrow> Inl e | Inr _ \<Rightarrow> Inr None)
      | Object p \<Rightarrow>
          (case build_all xs of
             Inl e \<Rightarrow> Inl e
           | Inr None \<Rightarrow> Inr None
           | Inr (Some ps) \<Rightarrow> Inr (Some (p # ps))))"

definition load_failed :: "sys \<Rightarrow> sys" where
  "load_failed s = s\<lparr>patients := [], stdout := stdout s @ [MsgLoadError]\<rparr>"

text \<open>
  \<open>load_patients\<close>.  The result is \<open>None\<close> when the document makes the program hold
  ill-typed objects; every other run of the method is a state.
\<close>

definition load_patients :: "sys \<Rightarrow> sys option" where
  "load_patients s =
     (case disk s (filename s) of
        None \<Rightarrow> Some (s\<lparr>patients := []\<rparr>)
      | Some Corrupt \<Rightarrow> Some (load_failed s)
      | Some (Doc data) \<Rightarrow>
          (case py_iter data of
             Inl e \<Rightarrow> Some (load_failed s)
           | Inr xs \<Rightarrow>
               (case build_all xs of
                  Inl e \<Rightarrow> Some (load_failed s)
                | Inr None \<Rightarrow> None
                | Inr (Some ps) \<Rightarrow>
                    Some (s\<lparr>patients := ps, stdout := stdout s @ [MsgLoaded (length ps)]\<rparr>))))"

text \<open>
  What \<open>json.dump\<close> can write of a record to a file that was opened with the encoding
  UTF-8.  A string is written when UTF-8 encodes it, which it does unless the string
  holds a surrogate, a code point from U+D800 to U+DFFF; the write of a string with a
  surrogate raises \<open>UnicodeEncodeError\<close>.  An integer is written when \<open>int.__repr__\<close>
  gives its digits, which it does unless there are more than
  \<open>sys.get_int_max_str_digits()\<close> of them; otherwise it raises \<open>ValueError\<close>.
\<close>

definition surrogate :: "nat \<Rightarrow> bool" where
  "surrogate c \<longleftrightarrow> 55296 \<le> c \<and> c \<le> 57343"

definition utf8_encodable :: "pystr \<Rightarrow> bool" where
  "utf8_encodable s \<longleftrightarrow> list_all (\<lambda>c. \<not> surrogate c) s"

function decimal_digits :: "nat \<Rightarrow> nat" where
  "decimal_digits n = (if n < 10 then 1 else Suc (decimal_digits (n div 10)))"
  by pat_completeness auto
termination
  by (relation "measure id") auto

definition int_repr_ok :: "int \<Rightarrow> bool" where
  "int_repr_ok n \<longleftrightarrow> decimal_digits (nat \<bar>n\<bar>) \<le> int_max_str_digits"

definition opt_encodable :: "pystr option \<Rightarrow> bool" where
  "opt_encodable v = (case v of None \<Rightarrow> True | Some s \<Rightarrow> utf8_encodable s)"

definition dumpable :: "patient \<Rightarrow> bool" where
  "dumpable p \<longleftrightarrow>
     int_repr_ok (pid p) \<and> utf8_encodable (last_name p) \<and> utf8_encodable (first_name p) \<and>
     opt_encodable (middle_name p) \<and> utf8_encodable (birth_date p) \<and>
     utf8_encodable (gender p) \<and> utf8_encodable (address p) \<and> utf8_encodable (phone p) \<and>
     opt_encodable (email p) \<and> utf8_encodable (insurance_number p) \<and>
     utf8_encodable (registration_date p) \<and> utf8_encodable (medical_history p) \<and>
     utf8_encodable (diagnosis p) \<and> utf8_encodable (attending_doctor p)"

text \<open>
  \<open>save_patients\<close>: it catches every exception and prints it.  When the dump raises
  on a record, the file has been opened and truncated, and what was written before the
  record is not a JSON document.
\<close>

definition save_patients :: "sys \<Rightarrow> sys" where
  "save_patients s =
     (case disk_fault s of
        None \<Rightarrow>
          if list_all dumpable (patients s) then
            s\<lparr>disk := (disk s)(filename s \<mapsto> Doc (JArr (map asdict (patients s)))),
              stdout := stdout s @ [MsgSaved (length (patients s))]\<rparr>
          else
            s\<lparr>disk := (disk s)(filename s \<mapsto> Corrupt), stdout := stdout s @ [MsgSaveError]\<rparr>
      | Some OpenFails \<Rightarrow> s\<lparr>stdout := stdout s @ [MsgSaveError]\<rparr>
      | Some WriteFails \<Rightarrow>
          s\<lparr>disk := (disk s)(filename s \<mapsto> Corrupt), stdout := stdout s @ [MsgSaveError]\<rparr>)"

section \<open>The registry operations\<close>

definition gets :: "(sys \<Rightarrow> 'a) \<Rightarrow> 'a prog" where
  "gets f = (\<lambda>s. (Inr (f s), s))"

definition lift :: "exn + 'a \<Rightarrow> 'a prog" where
  "lift r = (\<lambda>s. (r, s))"

text \<open>
  \<open>max\<close> of a sequence keeps the first greatest item and raises \<open>ValueError\<close> on an empty
  one; \<open>get_next_id\<close> calls it on the ids of a collection that is not empty.
\<close>

fun py_max :: "int list \<Rightarrow> exn + int" where
  "py_max [] = Inl ValueError"
| "py_max (x # xs) = Inr (fold (\<lambda>item m. if item > m then item else m) xs x)"

definition get_next_id :: "sys \<Rightarrow> exn + int" where
  "get_next_id s =
     (if patients s = [] then Inr 1
      else (case py_max (map pid (patients s)) of Inl e \<Rightarrow> Inl e | Inr m \<Rightarrow> Inr (m + 1)))"





















section \<open>Statistics\<close>

text \<open>
  The percentages are computed in binary floating point: \<open>count / total\<close> is the double
  nearest to the quotient, its product with 100 is rounded to a double again, and the
  format \<open>.1f\<close> rounds the exact value of that double to one decimal; every rounding is
  to the nearest, a tie to the even neighbour.  A positive double in the normal range is
  a rational \<open>m * 2 ^ e\<close> with \<open>2 ^ 52 \<le> m < 2 ^ 53\<close>; the quotients and products
  met here are zero or lie between \<open>2 ^ - 63\<close> and 100, so they stay in that range.
\<close>

function bits :: "int \<Rightarrow> nat" where
  "bits n = (if n \<le> 0 then 0 else Suc (bits (n div 2)))"
  by pat_completeness auto
termination
  by (relation "measure nat") auto

definition pow2 :: "int \<Rightarrow> rat" where
  "pow2 e = (if 0 \<le> e then 2 ^ nat e else 1 / 2 ^ nat (- e))"

definition round_half_even :: "rat \<Rightarrow> int" where
  "round_half_even x =
     (let f = \<lfloor>x\<rfloor>; d = x - of_int f in
      if d < 1 / 2 then f else if 1 / 2 < d then f + 1 else if even f then f else f + 1)"

text \<open>The exponent \<open>e\<close> with \<open>2 ^ e \<le> x < 2 ^ (e + 1)\<close>, for a positive \<open>x\<close>.\<close>

definition binade :: "rat \<Rightarrow> int" where
  "binade x =
     (let k = int (bits (fst (quotient_of x))) - int (bits (snd (quotient_of x))) in
      if pow2 k \<le> x then k else k - 1)"

text \<open>The double nearest to a rational that is zero or positive.\<close>

definition fl :: "rat \<Rightarrow> rat" where
  "fl x = (if x = 0 then 0
           else let u = pow2 (binade x - 52) in of_int (round_half_even (x / u)) * u)"

text \<open>\<open>f"{count/total*100:.1f}"\<close>, as a number of tenths.\<close>

definition percent_tenths :: "nat \<Rightarrow> nat \<Rightarrow> int" where
  "percent_tenths c t = round_half_even (10 * fl (fl (of_nat c / of_nat t) * 100))"

text \<open>
  The dict \<open>doctors\<close> is the list of its items in the order in which the keys were
  inserted, which is the order in which \<open>items()\<close> gives them.
\<close>

fun bump :: "pystr \<Rightarrow> (pystr \<times> nat) list \<Rightarrow> (pystr \<times> nat) list" where
  "bump k [] = [(k, 1)]"
| "bump k ((k', n) # kvs) = (if k = k' then (k', n + 1) # kvs else (k', n) # bump k kvs)"

definition group_doctors :: "patient list \<Rightarrow> (pystr \<times> nat) list" where
  "group_doctors ps = fold (\<lambda>p doctors. bump (attending_doctor p) doctors) ps []"

text \<open>
  \<open>sorted(..., key=lambda x: x[1], reverse=True)\<close>: by falling count, and stable, so
  that items with the same count keep the order they had.
\<close>

definition by_count_desc :: "(pystr \<times> nat) list \<Rightarrow> (pystr \<times> nat) list" where
  "by_count_desc items = sort_key (\<lambda>x. - int (snd x)) items"

definition male_count :: "patient list \<Rightarrow> nat" where
  "male_count ps = length (filter (\<lambda>p. gender p = male) ps)"

definition female_count :: "patient list \<Rightarrow> nat" where
  "female_count ps = length (filter (\<lambda>p. gender p = female) ps)"

definition display_statistics :: "unit prog" where
  "display_statistics =
     bnd (py_print MsgStatsHeader) (\<lambda>_.
     bnd (gets patients) (\<lambda>ps.
     if ps = [] then py_print MsgNoData
     else
       bnd (py_print (MsgTotal (length ps))) (\<lambda>_.
       bnd (py_print (MsgMen (male_count ps) (percent_tenths (male_count ps) (length ps)))) (\<lambda>_.
       bnd (py_print (MsgWomen (female_count ps)
                        (percent_tenths (female_count ps) (length ps)))) (\<lambda>_.
       bnd (py_print MsgDoctorsHeader) (\<lambda>_.
       for_each (\<lambda>item. py_print (MsgDoctor (fst item) (snd item)
                                    (percent_tenths (snd item) (length ps))))
         (by_count_desc (group_doctors ps))))))))"

section \<open>Sample data\<close>

text \<open>
  A patient of the kind \<open>add_patient\<close> builds, and a system that holds a collection, has
  the given lines left on its input, has printed nothing and has no file on its disk.
\<close>

definition sample_patient :: "int \<Rightarrow> pystr \<Rightarrow> pystr \<Rightarrow> pystr \<Rightarrow> patient" where
  "sample_patient i name g doctor =
     \<lparr>pid = i, last_name = name, first_name = pys ''Ann'', middle_name = None,
      birth_date = pys ''01.02.1990'', gender = g, address = pys ''Main St 1'',
      phone = pys ''555-0101'', email = Some (pys ''ann@example.org''),
      insurance_number = pys ''INS-1'', registration_date = pys ''03.04.2024 10:15'',
      medical_history = pys ''none'', diagnosis = pys ''healthy'',
      attending_doctor = doctor\<rparr>"

text \<open>A patient with a Russian name and a patronymic, and no e-mail address.\<close>

definition petrov :: patient where
  "petrov =
     \<lparr>pid = 7, last_name = [1055, 1105, 1090, 1088, 1086, 1074],
      first_name = [1048, 1074, 1072, 1085],
      middle_name = Some [1048, 1083, 1100, 1080, 1095],
      birth_date = pys ''05.06.1980'', gender = male, address = [], phone = pys ''+7 900'',
      email = None, insurance_number = pys ''77'', registration_date = pys ''01.01.2024 09:00'',
      medical_history = [], diagnosis = [], attending_doctor = pys ''B''\<rparr>"

definition sample_sys :: "patient list \<Rightarrow> pystr list \<Rightarrow> sys" where
  "sample_sys ps lines =
     \<lparr>filename = pys ''patients.json'', patients = ps, stdin = lines, stdout = [],
      disk = (\<lambda>_. None), disk_fault = None\<rparr>"



text \<open>
  A patient whose gender is neither of the two values, and the collection of the examples:
  last names Smith, Adams and Jones in this order, two men and a woman, doctors A, A and B.
\<close>

definition other_patient :: patient where
  "other_patient = sample_patient 2 (pys ''Lee'') (pys ''other'') (pys ''A'')"

definition three_patients :: "patient list" where
  "three_patients =
     [sample_patient 1 (pys ''Smith'') male (pys ''A''),
      sample_patient 2 (pys ''Adams'') male (pys ''A''),
      sample_patient 3 (pys ''Jones'') female (pys ''B'')]"





section \<open>Invariants of a run\<close>

text \<open>
  The predicates that the proofs about \<open>edit_patient\<close> use.  A statement preserves an
  invariant when the state it leaves satisfies the invariant whenever the state it starts
  from does, whether it ends with a value or raises; the value it ends with satisfies a
  second predicate.
\<close>

definition preserves :: "(sys \<Rightarrow> bool) \<Rightarrow> 'a prog \<Rightarrow> ('a \<Rightarrow> bool) \<Rightarrow> bool" where
  "preserves I m Q \<longleftrightarrow> (\<forall>s. I s \<longrightarrow> I (snd (m s)) \<and> (\<forall>x. fst (m s) = Inr x \<longrightarrow> Q x))"

text \<open>
  A field was kept, or it holds what one of the lines of the input is once its white
  space is stripped, and that is not empty.
\<close>

definition kept_or_entered :: "pystr list \<Rightarrow> pystr \<Rightarrow> pystr \<Rightarrow> bool" where
  "kept_or_entered lines old new \<longleftrightarrow>
     new = old \<or> (\<exists>l \<in> set lines. strip l \<noteq> [] \<and> new = strip l)"

definition kept_or_entered_opt :: "pystr list \<Rightarrow> pystr option \<Rightarrow> pystr option \<Rightarrow> bool" where
  "kept_or_entered_opt lines old new \<longleftrightarrow>
     new = old \<or> (\<exists>l \<in> set lines. strip l \<noteq> [] \<and> new = Some (strip l))"

text \<open>
  What an edit may do to a record: \<open>id\<close> and \<open>registration_date\<close> stay, the gender
  stays or becomes one of the two values of \<open>select_gender\<close>, and every other field is
  kept or entered.
\<close>

definition edited :: "pystr list \<Rightarrow> patient \<Rightarrow> patient \<Rightarrow> bool" where
  "edited lines p p' \<longleftrightarrow>
     pid p' = pid p \<and> registration_date p' = registration_date p \<and>
     (gender p' = gender p \<or> gender p' = male \<or> gender p' = female) \<and>
     kept_or_entered lines (last_name p) (last_name p') \<and>
     kept_or_entered lines (first_name p) (first_name p') \<and>
     kept_or_entered_opt lines (middle_name p) (middle_name p') \<and>
     kept_or_entered lines (birth_date p) (birth_date p') \<and>
     kept_or_entered lines (address p) (address p') \<and>
     kept_or_entered lines (phone p) (phone p') \<and>
     kept_or_entered_opt lines (email p) (email p') \<and>
     kept_or_entered lines (insurance_number p) (insurance_number p') \<and>
     kept_or_entered lines (medical_history p) (medical_history p') \<and>
     kept_or_entered lines (diagnosis p) (diagnosis p') \<and>
     kept_or_entered lines (attending_doctor p) (attending_doctor p')"

text \<open>
  The invariant of an edit of the record at position \<open>i\<close>, started in the state \<open>s0\<close>:
  the collection has the records it had, all of them unchanged but the one at \<open>i\<close>, which
  was edited with lines of the input of \<open>s0\<close>; and the input left is part of that input.
\<close>

definition edit_inv :: "nat \<Rightarrow> sys \<Rightarrow> sys \<Rightarrow> bool" where
  "edit_inv i s0 s \<longleftrightarrow>
     length (patients s) = length (patients s0) \<and>
     (\<forall>j. j \<noteq> i \<longrightarrow> patients s ! j = patients s0 ! j) \<and>
     edited (stdin s0) (patients s0 ! i) (patients s ! i) \<and>
     set (stdin s) \<subseteq> set (stdin s0)"

section \<open>Saving and loading: the claims\<close>

lemma field_keys_asdict: "asdict p = JObj kvs \<Longrightarrow> set (map fst kvs) = set field_names"
  by (auto simp: asdict_def field_names_def)

lemma typed_fields_asdict: "asdict p = JObj kvs \<Longrightarrow> typed_fields kvs = Some p"
  by (cases "middle_name p"; cases "email p")
     (auto simp: asdict_def typed_fields_def pys_def as_int_def as_str_def as_opt_str_def
        json_of_opt_def)

lemma Patient_kwargs_asdict: "Patient_kwargs (asdict p) = Object p"
proof -
  obtain kvs where k: "asdict p = JObj kvs" by (simp add: asdict_def)
  show ?thesis
    using field_keys_asdict [OF k] typed_fields_asdict [OF k]
    by (simp add: Patient_kwargs_def k)
qed

lemma build_all_asdict: "build_all (map asdict ps) = Inr (Some ps)"
  by (induction ps) (simp_all add: Patient_kwargs_asdict)

lemma save_written:
  "disk_fault s = None \<Longrightarrow> list_all dumpable (patients s) \<Longrightarrow>
   disk (save_patients s) = (disk s)(filename s \<mapsto> Doc (JArr (map asdict (patients s))))"
  by (simp add: save_patients_def)

lemma load_written:
  "disk t (filename t) = Some (Doc (JArr (map asdict ps))) \<Longrightarrow>
   load_patients t = Some (t\<lparr>patients := ps, stdout := stdout t @ [MsgLoaded (length ps)]\<rparr>)"
  by (simp add: load_patients_def py_iter_def build_all_asdict)

text \<open>
  Claim C1.  A sequence of records is saved from one state of the registry and loaded in
  another, which has of the first only the name of the file and the disk, as a registry
  that is started later has.  Whatever that other state holds, when the records are ones
  that \<open>json.dump\<close> can write (their strings are text that UTF-8 encodes, their ids
  have no more digits than the interpreter converts) and the disk does not fail, the save
  prints that it saved them and the load leaves exactly the list that was saved, every
  field of every record equal, whether the optional fields \<open>middle_name\<close> and \<open>email\<close>
  are present or absent, and prints that it loaded that many records.  When one of the
  records cannot be written, the save prints the error, the file is left unreadable, and
  the load prints its error and leaves an empty collection.  The witness saves a record
  with an ASCII name, no patronymic and an e-mail address and a record with a Russian
  name, a patronymic and no e-mail address, and loads them in a registry that holds
  another record; it also saves a record whose last name holds the surrogate U+DCFF.
\<close>

theorem save_then_load:
  "disk_fault s = None \<Longrightarrow>
   (list_all dumpable (patients s) \<longrightarrow>
      stdout (save_patients s) = stdout s @ [MsgSaved (length (patients s))] \<and>
      load_patients (t\<lparr>filename := filename s, disk := disk (save_patients s)\<rparr>) =
        Some (t\<lparr>filename := filename s, disk := disk (save_patients s),
                patients := patients s,
                stdout := stdout t @ [MsgLoaded (length (patients s))]\<rparr>)) \<and>
   (\<not> list_all dumpable (patients s) \<longrightarrow>
      stdout (save_patients s) = stdout s @ [MsgSaveError] \<and>
      load_patients (t\<lparr>filename := filename s, disk := disk (save_patients s)\<rparr>) =
        Some (t\<lparr>filename := filename s, disk := disk (save_patients s),
                patients := [], stdout := stdout t @ [MsgLoadError]\<rparr>))"
proof (cases "list_all dumpable (patients s)")
  case True
  assume f: "disk_fault s = None"
  have "load_patients (t\<lparr>filename := filename s, disk := disk (save_patients s)\<rparr>) =
        Some (t\<lparr>filename := filename s, disk := disk (save_patients s),
                patients := patients s,
                stdout := stdout t @ [MsgLoaded (length (patients s))]\<rparr>)"
    using load_written [of "t\<lparr>filename := filename s, disk := disk (save_patients s)\<rparr>"
        "patients s"]
    by (simp add: save_written [OF f True])
  with True f show ?thesis
    by (simp add: save_patients_def)
next
  case False
  assume f: "disk_fault s = None"
  with False show ?thesis
    by (simp add: save_patients_def load_patients_def load_failed_def)
qed

theorem save_then_load_witness:
  "load_patients
     ((sample_sys [other_patient] [pys ''x''])
        \<lparr>filename := pys ''patients.json'',
         disk := disk (save_patients
                   (sample_sys [sample_patient 1 (pys ''Smith'') female (pys ''A''), petrov] []))\<rparr>) =
   Some ((sample_sys [other_patient] [pys ''x''])
        \<lparr>filename := pys ''patients.json'',
         disk := disk (save_patients
                   (sample_sys [sample_patient 1 (pys ''Smith'') female (pys ''A''), petrov] [])),
         patients := [sample_patient 1 (pys ''Smith'') female (pys ''A''), petrov],
         stdout := [MsgLoaded 2]\<rparr>) \<and>
   stdout (save_patients
     (sample_sys [sample_patient 1 (pys ''Smith'') female (pys ''A''), petrov] [])) = [MsgSaved 2] \<and>
   stdout (save_patients (sample_sys [petrov\<lparr>last_name := [83, 56575]\<rparr>] [])) = [MsgSaveError] \<and>
   map_option patients (load_patients
     ((sample_sys [other_patient] [])
        \<lparr>filename := pys ''patients.json'',
         disk := disk (save_patients (sample_sys [petrov\<lparr>last_name := [83, 56575]\<rparr>] []))\<rparr>)) =
   Some []"
proof -
  have d: "list_all dumpable [sample_patient 1 (pys ''Smith'') female (pys ''A''), petrov]"
    by (simp add: dumpable_def int_repr_ok_def int_max_str_digits_def utf8_encodable_def
        opt_encodable_def surrogate_def sample_patient_def petrov_def pys_def male_def
        female_def)
  have n: "\<not> list_all dumpable [petrov\<lparr>last_name := [83, 56575]\<rparr>]"
    by (simp add: dumpable_def utf8_encodable_def surrogate_def)
  show ?thesis
    using save_then_load
        [of "sample_sys [sample_patient 1 (pys ''Smith'') female (pys ''A''), petrov] []"
          "sample_sys [other_patient] [pys ''x'']"]
      save_then_load
        [of "sample_sys [petrov\<lparr>last_name := [83, 56575]\<rparr>] []" "sample_sys [other_patient] []"]
      d n
    by (simp add: sample_sys_def)
qed

text \<open>
  Claim C4.  \<open>save_patients\<close> leaves the collection in memory as it was, whether the
  write succeeds or fails and whatever makes it fail; when the disk makes it fail, in
  either of the two ways, what happens is that the error is printed.
\<close>

theorem save_keeps_collection:
  "patients (save_patients s) = patients s \<and>
   (disk_fault s \<noteq> None \<longrightarrow> stdout (save_patients s) = stdout s @ [MsgSaveError])"
  by (cases "disk_fault s"; simp add: save_patients_def split: fault.splits)

theorem save_keeps_collection_witness:
  "patients (save_patients ((sample_sys [petrov] [])\<lparr>disk_fault := Some WriteFails\<rparr>)) = [petrov] \<and>
   stdout (save_patients ((sample_sys [petrov] [])\<lparr>disk_fault := Some WriteFails\<rparr>)) =
     [MsgSaveError]"
  using save_keeps_collection [of "(sample_sys [petrov] [])\<lparr>disk_fault := Some WriteFails\<rparr>"]
  by (simp add: sample_sys_def)





section \<open>Identifiers\<close>

lemma py_max_Max:
  assumes "xs \<noteq> []"
  shows "py_max xs = Inr (Max (set xs))"
proof -
  from assms obtain x ys where xs: "xs = x # ys"
    by (cases xs) auto
  have "(\<lambda>item m. if m < item then item else m) = (max :: int \<Rightarrow> int \<Rightarrow> int)"
    by (auto simp: fun_eq_iff max_def)
  then show ?thesis
    using xs Max.set_eq_fold [of x ys] by simp
qed

text \<open>
  Claim C2.  \<open>get_next_id\<close> returns 1 for an empty collection and the greatest id plus
  one for any other; what it returns is never the id of a record of the collection; and
  it depends on the collection alone, being computed from it at each call.
\<close>

theorem get_next_id_fresh:
  "(patients s = [] \<longrightarrow> get_next_id s = Inr 1) \<and>
   (patients s \<noteq> [] \<longrightarrow> get_next_id s = Inr (Max (pid ` set (patients s)) + 1)) \<and>
   (\<forall>n. get_next_id s = Inr n \<longrightarrow> n \<notin> pid ` set (patients s)) \<and>
   (patients s' = patients s \<longrightarrow> get_next_id s' = get_next_id s)"
proof -
  have ne: "get_next_id s = Inr (Max (pid ` set (patients s)) + 1)" if "patients s \<noteq> []"
    using that by (simp add: get_next_id_def py_max_Max)
  have "n \<notin> pid ` set (patients s)" if n: "get_next_id s = Inr n" for n
  proof (cases "patients s = []")
    case True
    then show ?thesis by simp
  next
    case False
    with n ne have eq: "n = Max (pid ` set (patients s)) + 1" by simp
    show ?thesis
    proof
      assume "n \<in> pid ` set (patients s)"
      then have "n \<le> Max (pid ` set (patients s))" by simp
      with eq show False by simp
    qed
  qed
  then show ?thesis
    using ne by (auto simp: get_next_id_def)
qed

theorem get_next_id_fresh_witness:
  "get_next_id (sample_sys [] []) = Inr 1 \<and>
   get_next_id (sample_sys [petrov, sample_patient 3 (pys ''Smith'') female (pys ''A'')] []) =
     Inr 8 \<and>
   (8::int) \<notin> pid ` set [petrov, sample_patient 3 (pys ''Smith'') female (pys ''A'')] \<and>
   get_next_id
     (sample_sys [petrov, sample_patient 3 (pys ''Smith'') female (pys ''A'')] [pys ''x'']) =
   get_next_id (sample_sys [petrov, sample_patient 3 (pys ''Smith'') female (pys ''A'')] [])"
  using get_next_id_fresh [of "sample_sys [] []" "sample_sys [] []"]
    get_next_id_fresh
      [of "sample_sys [petrov, sample_patient 3 (pys ''Smith'') female (pys ''A'')] []"
        "sample_sys [petrov, sample_patient 3 (pys ''Smith'') female (pys ''A'')] [pys ''x'']"]
  by (simp add: sample_sys_def petrov_def sample_patient_def)

section \<open>Running the statements\<close>

lemma ret_apply: "ret x s = (Inr x, s)"
  by (simp add: ret_def)

lemma raise_apply: "raise e s = (Inl e, s)"
  by (simp add: raise_def)

lemma bnd_apply:
  "bnd m f s = (case m s of (Inl e, s') \<Rightarrow> (Inl e, s') | (Inr x, s') \<Rightarrow> f x s')"
  by (simp add: bnd_def)

lemma catch_apply:
  "catch m h s = (case m s of (Inl e, s') \<Rightarrow> h e s' | (Inr x, s') \<Rightarrow> (Inr x, s'))"
  by (simp add: catch_def)

lemma modify_apply: "modify f s = (Inr (), f s)"
  by (simp add: modify_def)

lemma gets_apply: "gets f s = (Inr (f s), s)"
  by (simp add: gets_def)

lemma lift_apply: "lift r s = (r, s)"
  by (simp add: lift_def)

lemma py_print_apply: "py_print m s = (Inr (), s\<lparr>stdout := stdout s @ [m]\<rparr>)"
  by (simp add: py_print_def modify_def)

lemma py_input_apply:
  "py_input s = (case stdin s of [] \<Rightarrow> (Inl EOFError, s) | l # ls \<Rightarrow> (Inr l, s\<lparr>stdin := ls\<rparr>))"
  by (simp add: py_input_def)

lemmas prog_simps = ret_apply raise_apply bnd_apply catch_apply modify_apply gets_apply
  lift_apply py_print_apply py_input_apply

section \<open>Statistics: the claims\<close>

lemma for_each_print:
  "for_each (\<lambda>x. py_print (f x)) xs s = (Inr (), s\<lparr>stdout := stdout s @ map f xs\<rparr>)"
  by (induction xs arbitrary: s) (simp_all add: prog_simps)

lemma display_statistics_output:
  assumes "patients s \<noteq> []"
  shows "display_statistics s =
    (Inr (), s\<lparr>stdout := stdout s @
       [MsgStatsHeader, MsgTotal (length (patients s)),
        MsgMen (male_count (patients s)) (percent_tenths (male_count (patients s)) (length (patients s))),
        MsgWomen (female_count (patients s)) (percent_tenths (female_count (patients s)) (length (patients s))),
        MsgDoctorsHeader] @
       map (\<lambda>item. MsgDoctor (fst item) (snd item) (percent_tenths (snd item) (length (patients s))))
         (by_count_desc (group_doctors (patients s)))\<rparr>)"
  using assms
  by (simp add: display_statistics_def prog_simps for_each_print)

lemma male_not_female: "male \<noteq> female"
  by (simp add: male_def female_def)

lemma gender_partition:
  "male_count ps + female_count ps +
   length (filter (\<lambda>p. gender p \<noteq> male \<and> gender p \<noteq> female) ps) = length ps"
  using male_not_female
  by (induction ps) (auto simp: male_count_def female_count_def)

text \<open>
  Claim C10.  Every record counts in the total.  It counts as a man or as a woman only
  when its gender is exactly one of the two values, so the two counts and the number of
  the records with any other gender add up to the total, and the two counts add up to at
  most the total; a record with another gender leaves both counts as they are.  These
  are the counts that \<open>display_statistics\<close> prints, with their percentages.
\<close>

theorem gender_counts:
  "male_count ps + female_count ps +
     length (filter (\<lambda>p. gender p \<noteq> male \<and> gender p \<noteq> female) ps) = length ps \<and>
   male_count ps + female_count ps \<le> length ps \<and>
   (gender p \<noteq> male \<and> gender p \<noteq> female \<longrightarrow>
      male_count (ps @ [p]) = male_count ps \<and> female_count (ps @ [p]) = female_count ps \<and>
      length (ps @ [p]) = length ps + 1) \<and>
   (patients s \<noteq> [] \<longrightarrow>
      take 4 (drop (length (stdout s)) (stdout (snd (display_statistics s)))) =
        [MsgStatsHeader, MsgTotal (length (patients s)),
         MsgMen (male_count (patients s))
           (percent_tenths (male_count (patients s)) (length (patients s))),
         MsgWomen (female_count (patients s))
           (percent_tenths (female_count (patients s)) (length (patients s)))])"
  using gender_partition [of ps]
  by (auto simp: display_statistics_output male_count_def female_count_def)


theorem gender_counts_witness:
  "male_count [petrov, other_patient] + female_count [petrov, other_patient] +
     length (filter (\<lambda>p. gender p \<noteq> male \<and> gender p \<noteq> female) [petrov, other_patient]) =
     length [petrov, other_patient] \<and>
   male_count [petrov, other_patient] + female_count [petrov, other_patient] \<le>
     length [petrov, other_patient] \<and>
   male_count ([petrov] @ [other_patient]) = male_count [petrov] \<and>
   female_count ([petrov] @ [other_patient]) = female_count [petrov] \<and>
   length ([petrov] @ [other_patient]) = length [petrov] + 1 \<and>
   male_count [petrov, other_patient] = 1 \<and> female_count [petrov, other_patient] = 0 \<and>
   take 4 (stdout (snd (display_statistics (sample_sys [petrov, other_patient] [])))) =
     [MsgStatsHeader, MsgTotal 2, MsgMen 1 (percent_tenths 1 2), MsgWomen 0 (percent_tenths 0 2)]"
proof -
  have g: "gender other_patient \<noteq> male \<and> gender other_patient \<noteq> female"
    by (simp add: other_patient_def sample_patient_def male_def female_def pys_def)
  have n: "patients (sample_sys [petrov, other_patient] []) \<noteq> []"
    by (simp add: sample_sys_def)
  have m: "male_count [petrov, other_patient] = 1 \<and> female_count [petrov, other_patient] = 0"
    using g by (simp add: male_count_def female_count_def petrov_def male_def female_def)
  have p: "patients (sample_sys [petrov, other_patient] []) = [petrov, other_patient]"
    "stdout (sample_sys [petrov, other_patient] []) = []"
    by (simp_all add: sample_sys_def)
  have l: "length [petrov, other_patient] = 2"
    by simp
  show ?thesis
    using gender_counts [of "[petrov, other_patient]" other_patient
        "sample_sys [petrov, other_patient] []"]
      gender_counts [of "[petrov]" other_patient "sample_sys [petrov, other_patient] []"]
      g n m
    unfolding p l by simp
qed

lemma bump_keys:
  "map fst (bump k kvs) = (if k \<in> fst ` set kvs then map fst kvs else map fst kvs @ [k])"
  by (induction kvs) (force simp: image_iff)+

lemma bump_key_set: "fst ` set (bump k kvs) = insert k (fst ` set kvs)"
  by (induction kvs) force+

lemma map_of_bump:
  "map_of (bump k kvs) = (map_of kvs)(k \<mapsto> (case map_of kvs k of None \<Rightarrow> 1 | Some n \<Rightarrow> n + 1))"
  by (induction kvs) (auto simp: fun_eq_iff)

lemma first_seen_Cons:
  "rev (remdups (rev (x # xs))) = x # filter (\<lambda>y. y \<noteq> x) (rev (remdups (rev xs)))"
proof -
  have "remdups (ys @ [x]) = filter (\<lambda>y. y \<noteq> x) (remdups ys) @ [x]" for ys
    by (induction ys) auto
  then show ?thesis
    by (simp add: rev_filter)
qed

lemma fold_bump_keys:
  "map fst (fold (\<lambda>p. bump (attending_doctor p)) ps acc) =
   map fst acc @ filter (\<lambda>d. d \<notin> fst ` set acc) (rev (remdups (rev (map attending_doctor ps))))"
proof (induction ps arbitrary: acc)
  case Nil
  then show ?case by simp
next
  case (Cons p ps)
  show ?case
    using Cons.IH [of "bump (attending_doctor p) acc"]
      first_seen_Cons [of "attending_doctor p" "map attending_doctor ps"]
    by (auto simp: bump_keys bump_key_set intro: filter_cong)
qed

lemma fold_bump_count:
  "map_of (fold (\<lambda>p. bump (attending_doctor p)) ps acc) d =
   (case map_of acc d of
      None \<Rightarrow> (if filter (\<lambda>p. attending_doctor p = d) ps = [] then None
               else Some (length (filter (\<lambda>p. attending_doctor p = d) ps)))
    | Some n \<Rightarrow> Some (n + length (filter (\<lambda>p. attending_doctor p = d) ps)))"
  by (induction ps arbitrary: acc) (auto simp: map_of_bump split: option.splits)

lemma group_doctors_keys:
  "map fst (group_doctors ps) = rev (remdups (rev (map attending_doctor ps)))"
  using fold_bump_keys [of ps "[]"] by (simp add: group_doctors_def)

lemma group_doctors_counts:
  "(d, c) \<in> set (group_doctors ps) \<longleftrightarrow>
   d \<in> attending_doctor ` set ps \<and> c = length (filter (\<lambda>p. attending_doctor p = d) ps)"
proof -
  have "distinct (map fst (group_doctors ps))"
    by (simp add: group_doctors_keys)
  then have "(d, c) \<in> set (group_doctors ps) \<longleftrightarrow> map_of (group_doctors ps) d = Some c"
    by simp
  also have "\<dots> \<longleftrightarrow> d \<in> attending_doctor ` set ps \<and>
      c = length (filter (\<lambda>p. attending_doctor p = d) ps)"
    using fold_bump_count [of ps "[]" d]
    by (auto simp: group_doctors_def filter_empty_conv)
  finally show ?thesis .
qed

lemma by_count_desc_sorted: "sorted_wrt (\<lambda>a b. snd b \<le> snd a) (by_count_desc items)"
proof -
  have "sorted (map (\<lambda>x. - int (snd x)) (by_count_desc items))"
    by (simp add: by_count_desc_def)
  then show ?thesis
    by (simp add: sorted_map)
qed

lemma by_count_desc_stable:
  "filter (\<lambda>x. snd x = c) (by_count_desc items) = filter (\<lambda>x. snd x = c) items"
  using sort_key_stable [of "\<lambda>x. - int (snd x)" "- int c" items]
  by (simp add: by_count_desc_def)


lemma percent_examples:
  "percent_tenths 2 3 = 667" "percent_tenths (Suc 0) 3 = 333"
  by code_simp+

text \<open>
  Claim C7.  For a collection that is not empty, \<open>display_statistics\<close> prints the
  total, the number of men and of women with their percentages, and a line for each
  doctor with the number of the doctor's patients and its percentage.  A percentage is
  \<open>count / total * 100\<close> in floating point, shown with one decimal.  The doctors are the
  distinct values of \<open>attending_doctor\<close>, first in the order in which they are first
  seen; the lines are sorted by falling count, and that sort is stable, so doctors with
  the same count stay in the order in which they were first seen.  The witness is the
  collection of three records of the specification: 3 in total, 2 men (66.7), 1 woman
  (33.3), doctor A with 2 (66.7) before doctor B with 1 (33.3).  For an empty collection
  the method prints that there is no data.
\<close>

theorem statistics_report:
  "patients s = ps \<Longrightarrow> ps \<noteq> [] \<Longrightarrow>
   (patients s' = [] \<longrightarrow>
      display_statistics s' = (Inr (), s'\<lparr>stdout := stdout s' @ [MsgStatsHeader, MsgNoData]\<rparr>)) \<and>
   display_statistics s =
     (Inr (), s\<lparr>stdout := stdout s @
        [MsgStatsHeader, MsgTotal (length ps),
         MsgMen (male_count ps) (percent_tenths (male_count ps) (length ps)),
         MsgWomen (female_count ps) (percent_tenths (female_count ps) (length ps)),
         MsgDoctorsHeader] @
        map (\<lambda>item. MsgDoctor (fst item) (snd item) (percent_tenths (snd item) (length ps)))
          (by_count_desc (group_doctors ps))\<rparr>) \<and>
   male_count ps = length (filter (\<lambda>p. gender p = male) ps) \<and>
   female_count ps = length (filter (\<lambda>p. gender p = female) ps) \<and>
   percent_tenths c (length ps) =
     round_half_even (10 * fl (fl (of_nat c / of_nat (length ps)) * 100)) \<and>
   map fst (group_doctors ps) = rev (remdups (rev (map attending_doctor ps))) \<and>
   (\<forall>d n. (d, n) \<in> set (group_doctors ps) \<longleftrightarrow>
      d \<in> attending_doctor ` set ps \<and> n = length (filter (\<lambda>p. attending_doctor p = d) ps)) \<and>
   set (by_count_desc (group_doctors ps)) = set (group_doctors ps) \<and>
   length (by_count_desc (group_doctors ps)) = length (group_doctors ps) \<and>
   sorted_wrt (\<lambda>a b. snd b \<le> snd a) (by_count_desc (group_doctors ps)) \<and>
   (\<forall>n. filter (\<lambda>x. snd x = n) (by_count_desc (group_doctors ps)) =
        filter (\<lambda>x. snd x = n) (group_doctors ps))"
  using display_statistics_output [of s] group_doctors_keys [of ps] group_doctors_counts [of _ _ ps]
    by_count_desc_sorted [of "group_doctors ps"] by_count_desc_stable [of _ "group_doctors ps"]
  by (simp add: male_count_def female_count_def percent_tenths_def by_count_desc_def
      display_statistics_def prog_simps)

theorem statistics_report_witness:
  "display_statistics (sample_sys three_patients []) =
     (Inr (), (sample_sys three_patients [])\<lparr>stdout :=
        [MsgStatsHeader, MsgTotal 3, MsgMen 2 667, MsgWomen 1 333, MsgDoctorsHeader,
         MsgDoctor (pys ''A'') 2 667, MsgDoctor (pys ''B'') 1 333]\<rparr>)"
proof -
  have ps: "patients (sample_sys three_patients []) = three_patients"
    "stdout (sample_sys three_patients []) = []"
    by (simp_all add: sample_sys_def)
  have ne: "three_patients \<noteq> []"
    by (simp add: three_patients_def)
  have n: "length three_patients = 3"
    by (simp add: three_patients_def)
  have m: "male_count three_patients = 2" "female_count three_patients = 1"
    by (simp_all add: three_patients_def male_count_def female_count_def sample_patient_def
        male_def female_def)
  have g: "group_doctors three_patients = [(pys ''A'', 2), (pys ''B'', 1)]"
    by (simp add: three_patients_def group_doctors_def sample_patient_def pys_def)
  have r: "display_statistics (sample_sys three_patients []) =
     (Inr (), (sample_sys three_patients [])\<lparr>stdout := stdout (sample_sys three_patients []) @
        [MsgStatsHeader, MsgTotal (length three_patients),
         MsgMen (male_count three_patients)
           (percent_tenths (male_count three_patients) (length three_patients)),
         MsgWomen (female_count three_patients)
           (percent_tenths (female_count three_patients) (length three_patients)),
         MsgDoctorsHeader] @
        map (\<lambda>item. MsgDoctor (fst item) (snd item)
               (percent_tenths (snd item) (length three_patients)))
          (by_count_desc (group_doctors three_patients))\<rparr>)"
    using statistics_report [of "sample_sys three_patients []" three_patients _ 0, OF ps(1) ne]
    by blast
  show ?thesis
    unfolding r by (simp add: ps n m g by_count_desc_def percent_examples)
qed

section \<open>The sorted list: the claims\<close>







section \<open>Editing a record: the claims\<close>




lemma preserves_weaken: "preserves I m Q \<Longrightarrow> (\<And>x. Q x \<Longrightarrow> Q' x) \<Longrightarrow> preserves I m Q'"
  by (simp add: preserves_def)


lemma edit_inv_stdout [simp]: "edit_inv i s0 (s\<lparr>stdout := out\<rparr>) = edit_inv i s0 s"
  by (simp add: edit_inv_def)

lemma edit_inv_save [simp]: "edit_inv i s0 (save_patients s) = edit_inv i s0 s"
  by (simp add: edit_inv_def save_patients_def split: option.splits fault.splits if_splits)































lemma save_patients_frame [simp]:
  "patients (save_patients s) = patients s" "stdin (save_patients s) = stdin s"
  "filename (save_patients s) = filename s" "disk_fault (save_patients s) = disk_fault s"
  by (simp_all add: save_patients_def split: option.splits fault.splits)













section \<open>Deleting a record and validating an id: the claims\<close>













end
